theory Spec2Isabelle
  imports Complex_Main "HOL-Library.Word"
begin

section \<open>JavaScript values used by the analyzer\<close>

text \<open>
  A JavaScript string is a sequence of UTF-16 code units. Literals of the source are
  written as HOL strings and converted by \<open>str\<close>.
\<close>

type_synonym jsstring = "16 word list"

definition str :: "string \<Rightarrow> jsstring" where
  "str s = map of_char s"

text \<open>
  A JavaScript number as far as the analyzer produces one: \<open>NaN\<close> (the value of
  \<open>0 / 0\<close>) or a finite double, given by its exact rational value. The quotient, the
  product and the sums that make the confidence are rounded to the nearest double, as the
  source computes them.

  The scores inside the results of the three scorers stay exact rationals: they are only
  compared with 0.1 and 0.3, as quotients of integers that the length of a string bounds,
  and none of these comparisons is within rounding distance of its threshold.
\<close>

text \<open>The largest \<open>k\<close> with \<open>2 ^ k \<le> n\<close>, for \<open>n \<ge> 1\<close>.\<close>

function floor_log2 :: "int \<Rightarrow> int" where
  "floor_log2 n = (if n < 2 then 0 else floor_log2 (n div 2) + 1)"
  by pat_completeness auto
termination
  by (relation "measure nat") auto

declare floor_log2.simps [simp del]

text \<open>The binary exponent of \<open>x > 0\<close>: the \<open>e\<close> with \<open>2 ^ e \<le> x < 2 ^ (e + 1)\<close>.\<close>

definition exponent :: "rat \<Rightarrow> int" where
  "exponent x =
     (if 1 \<le> x then floor_log2 \<lfloor>x\<rfloor>
      else - (floor_log2 (\<lceil>1 / x\<rceil> - 1) + 1))"

text \<open>The nearest integer, and the even one of the two when \<open>x\<close> is half way.\<close>

definition roundTiesToEven :: "rat \<Rightarrow> int" where
  "roundTiesToEven x =
     (let n = \<lfloor>x\<rfloor>; r = x - of_int n
      in if r < 1 / 2 then n
         else if 1 / 2 < r then n + 1
         else if even n then n else n + 1)"

text \<open>
  The double nearest to \<open>x\<close> (IEEE 754 binary64, round to nearest, ties to even): a
  multiple of the unit in the last place of the 53-bit significand. Overflow and
  subnormal numbers are left out: the analyzer computes quotients of counts, their
  hundredfold and sums below 150.
\<close>

definition double :: "rat \<Rightarrow> rat" where
  "double x =
     (if x = 0 then 0
      else let e = exponent \<bar>x\<bar>;
               ulp = (if 52 \<le> e then 2 ^ nat (e - 52) else 1 / 2 ^ nat (52 - e))
           in of_int (roundTiesToEven (x / ulp)) * ulp)"

datatype number = NaN | Num rat

text \<open>\<open>x * y\<close> and \<open>x + y\<close>, where \<open>y\<close> is a literal of the source.\<close>

fun multiply :: "number \<Rightarrow> rat \<Rightarrow> number" where
  "multiply NaN y = NaN"
| "multiply (Num x) y = Num (double (x * y))"

fun increase :: "number \<Rightarrow> rat \<Rightarrow> number" where
  "increase NaN y = NaN"
| "increase (Num x) y = Num (double (x + y))"

text \<open>\<open>x > y\<close>: every comparison with \<open>NaN\<close> is false.\<close>

fun exceeds :: "number \<Rightarrow> rat \<Rightarrow> bool" where
  "exceeds NaN y = False"
| "exceeds (Num x) y = (x > y)"

text \<open>\<open>Math.min(x, y)\<close>: \<open>NaN\<close> if an argument is \<open>NaN\<close>.\<close>

fun Math_min :: "number \<Rightarrow> rat \<Rightarrow> number" where
  "Math_min NaN y = NaN"
| "Math_min (Num x) y = Num (min x y)"

datatype error = TypeError

subsection \<open>String operations of the standard library\<close>

definition isAsciiLetter :: "16 word \<Rightarrow> bool" where
  "isAsciiLetter u = ((0x41 \<le> u \<and> u \<le> 0x5A) \<or> (0x61 \<le> u \<and> u \<le> 0x7A))"

text \<open>The class \<open>\s\<close> of a regular expression, which is also what \<open>trim\<close> removes.\<close>

definition isWhiteSpace :: "16 word \<Rightarrow> bool" where
  "isWhiteSpace u =
     (u \<in> set [0x9, 0xA, 0xB, 0xC, 0xD, 0x20, 0xA0, 0x1680, 0x2028, 0x2029,
                0x202F, 0x205F, 0x3000, 0xFEFF]
      \<or> (0x2000 \<le> u \<and> u \<le> 0x200A))"

text \<open>
  \<open>toLowerCase\<close>. The lower-case form of a code unit contains an ASCII letter for
  \<open>A\<close> to \<open>Z\<close>, for the Kelvin sign U+212A (\<open>k\<close>) and for U+0130 (\<open>i\<close> followed by
  U+0307) only, and white space has no case. Every other unit becomes units that are
  neither ASCII letters nor white space; \<open>cleanText\<close> deletes them in its next step, so
  they are left as they are here.
\<close>

fun lowerUnit :: "16 word \<Rightarrow> jsstring" where
  "lowerUnit u =
     (if 0x41 \<le> u \<and> u \<le> 0x5A then [u + 0x20]
      else if u = 0x212A then [0x6B]
      else if u = 0x130 then [0x69, 0x307]
      else [u])"

definition toLowerCase :: "jsstring \<Rightarrow> jsstring" where
  "toLowerCase s = concat (map lowerUnit s)"

text \<open>\<open>s.replace(/[^a-zA-Z\s]/g, '')\<close>\<close>

definition removeNonLetters :: "jsstring \<Rightarrow> jsstring" where
  "removeNonLetters s = filter (\<lambda>u. isAsciiLetter u \<or> isWhiteSpace u) s"

text \<open>\<open>s.replace(/\s+/g, ' ')\<close>: every maximal run of white space becomes one space.\<close>

function collapseWhiteSpace :: "jsstring \<Rightarrow> jsstring" where
  "collapseWhiteSpace [] = []"
| "collapseWhiteSpace (u # us) =
     (if isWhiteSpace u then 0x20 # collapseWhiteSpace (dropWhile isWhiteSpace us)
      else u # collapseWhiteSpace us)"
  by pat_completeness auto
termination
  by (relation "measure length") (auto simp: le_imp_less_Suc length_dropWhile_le)

definition trim :: "jsstring \<Rightarrow> jsstring" where
  "trim s = rev (dropWhile isWhiteSpace (rev (dropWhile isWhiteSpace s)))"

text \<open>\<open>s.split(' ')\<close>: the pieces between single spaces; one empty piece for \<open>''\<close>.\<close>

fun splitOnSpace :: "jsstring \<Rightarrow> jsstring list" where
  "splitOnSpace [] = [[]]"
| "splitOnSpace (u # us) =
     (if u = 0x20 then [] # splitOnSpace us
      else (case splitOnSpace us of
              [] \<Rightarrow> [[u]]
            | w # ws \<Rightarrow> (u # w) # ws))"

fun startsWith :: "jsstring \<Rightarrow> jsstring \<Rightarrow> bool" where
  "startsWith us [] = True"
| "startsWith [] (k # ks) = False"
| "startsWith (u # us) (k # ks) = (u = k \<and> startsWith us ks)"

text \<open>\<open>s.includes(k)\<close>: \<open>k\<close> occurs in \<open>s\<close> as a contiguous substring.\<close>

fun includesStr :: "jsstring \<Rightarrow> jsstring \<Rightarrow> bool" where
  "includesStr [] k = (k = [])"
| "includesStr (u # us) k = (startsWith (u # us) k \<or> includesStr us k)"

text \<open>
  A pattern of the source has the shape \<open>/prefix (alt1|alt2|...)/i\<close>: a pair of the
  prefix and the alternatives. Without the \<open>u\<close> flag, ignoring case identifies an ASCII
  letter with its other case and with no unit outside ASCII.
\<close>

type_synonym pattern = "string \<times> string list"

definition canonicalize :: "16 word \<Rightarrow> 16 word" where
  "canonicalize u = (if 0x61 \<le> u \<and> u \<le> 0x7A then u - 0x20 else u)"

definition test :: "pattern \<Rightarrow> jsstring \<Rightarrow> bool" where
  "test p text =
     list_ex (\<lambda>alt. includesStr (map canonicalize text)
                                 (map canonicalize (str (fst p @ alt))))
             (snd p)"

subsection \<open>Objects with string keys\<close>

text \<open>
  An object used as a dictionary is the list of its entries in the order of
  \<open>Object.entries\<close>, which for keys that are not integers is the order of insertion.
  Assigning to an existing key keeps its place.
\<close>

type_synonym 'v object = "(string \<times> 'v) list"

fun assign :: "'v object \<Rightarrow> string \<Rightarrow> 'v \<Rightarrow> 'v object" where
  "assign [] k v = [(k, v)]"
| "assign ((k', v') # es) k v =
     (if k' = k then (k', v) # es else (k', v') # assign es k v)"

text \<open>
  \<open>counts[a[0]] > counts[b[0]] ? a : b\<close>, the callback of every \<open>reduce\<close> of the
  source; a missing property is \<open>undefined\<close> and compares false.
\<close>

definition higher :: "int object \<Rightarrow> (string \<times> int) \<Rightarrow> (string \<times> int) \<Rightarrow> (string \<times> int)" where
  "higher counts a b =
     (case (map_of counts (fst a), map_of counts (fst b)) of
        (Some x, Some y) \<Rightarrow> if x > y then a else b
      | _ \<Rightarrow> b)"

text \<open>
  \<open>array.reduce(f)\<close> without an initial value: a \<open>TypeError\<close> on the empty array,
  otherwise the fold of \<open>f\<close> from the first element over the others.
\<close>

fun reduce :: "('a \<Rightarrow> 'a \<Rightarrow> 'a) \<Rightarrow> 'a list \<Rightarrow> error + 'a" where
  "reduce f [] = Inl TypeError"
| "reduce f (x # xs) = Inr (foldl f x xs)"

section \<open>EnhancedSentimentAnalyzer\<close>

definition emotionKeywords :: "(string \<times> string list) list" where
  "emotionKeywords =
     [(''anxiety'', [''anxious'', ''worried'', ''nervous'', ''scared'', ''fear'', ''panic'',
                     ''stress'', ''overwhelmed'']),
      (''depression'', [''sad'', ''depressed'', ''hopeless'', ''worthless'', ''empty'', ''tired'',
                        ''exhausted'', ''down'']),
      (''anger'', [''angry'', ''mad'', ''furious'', ''irritated'', ''frustrated'', ''hate'', ''rage'']),
      (''happiness'', [''happy'', ''joy'', ''excited'', ''pleased'', ''content'', ''grateful'',
                       ''blessed'']),
      (''loneliness'', [''alone'', ''lonely'', ''isolated'', ''abandoned'', ''left out'', ''no one'']),
      (''suicidal'', [''suicide'', ''kill myself'', ''end it all'', ''want to die'',
                      ''better off dead'', ''no point''])]"

definition intentKeywords :: "(string \<times> string list) list" where
  "intentKeywords =
     [(''help_request'', [''help'', ''support'', ''need'', ''struggling'', ''crisis'']),
      (''greeting'', [''hello'', ''hi'', ''how are you'', ''feeling'', ''doing'']),
      (''gratitude'', [''thank'', ''thanks'', ''appreciate'', ''grateful'']),
      (''meditation'', [''meditate'', ''breathing'', ''calm'', ''relax'', ''mindfulness'']),
      (''sleep'', [''sleep'', ''insomnia'', ''tired'', ''rest'', ''bed'']),
      (''general'', [''general'', ''talk'', ''chat'', ''conversation''])]"

definition cleanText :: "jsstring \<Rightarrow> jsstring" where
  "cleanText text = trim (collapseWhiteSpace (removeNonLetters (toLowerCase text)))"

text \<open>
  The three scorers return objects of different shapes; all have the field
  \<open>sentiment\<close>, the only one \<open>combineSentiments\<close> reads.
\<close>

datatype scorerResult =
    Vader (sentiment_of: string) (compound: rat) (positiveCount: int) (negativeCount: int)
  | Keyword (sentiment_of: string) (score: rat)
  | Pattern (sentiment_of: string) (matchConfidence: rat)

definition positiveWords :: "string list" where
  "positiveWords = [''good'', ''great'', ''wonderful'', ''excellent'', ''amazing'', ''love'',
                    ''joy'', ''happy'', ''blessed'']"

definition negativeWords :: "string list" where
  "negativeWords = [''bad'', ''terrible'', ''awful'', ''hate'', ''angry'', ''depressed'',
                    ''suicidal'', ''sad'', ''hopeless'']"

definition vaderSentiment :: "jsstring \<Rightarrow> scorerResult" where
  "vaderSentiment text =
     (let words = splitOnSpace text;
          counts = fold (\<lambda>word (p, n).
                      (if word \<in> set (map str positiveWords) then p + 1 else p,
                       if word \<in> set (map str negativeWords) then n + 1 else n))
                    words (0, 0);
          positiveCount = fst counts;
          negativeCount = snd counts;
          compound = of_int (positiveCount - negativeCount)
                       / of_int (max (int (length words)) 1)
      in Vader (if compound > 1 / 10 then ''positive''
                else if compound < - (1 / 10) then ''negative'' else ''neutral'')
               compound positiveCount negativeCount)"

definition positiveKeywords :: "string list" where
  "positiveKeywords = [''happy'', ''good'', ''great'', ''wonderful'', ''excited'', ''grateful'']"

definition negativeKeywords :: "string list" where
  "negativeKeywords = [''sad'', ''bad'', ''terrible'', ''depressed'', ''angry'', ''suicidal'']"

text \<open>The loop \<open>keywords.forEach(keyword => { if (text.includes(keyword)) score += 1 })\<close>.\<close>

definition countIncluded :: "jsstring \<Rightarrow> string list \<Rightarrow> int" where
  "countIncluded text keywords =
     fold (\<lambda>keyword score. if includesStr text (str keyword) then score + 1 else score)
          keywords 0"

definition keywordSentiment :: "jsstring \<Rightarrow> scorerResult" where
  "keywordSentiment text =
     (let positiveScore = countIncluded text positiveKeywords;
          negativeScore = countIncluded text negativeKeywords;
          total = positiveScore + negativeScore
      in if total = 0 then Keyword ''neutral'' 0
         else let score = of_int (positiveScore - negativeScore) / of_int total
              in Keyword (if score > 3 / 10 then ''positive''
                          else if score < - (3 / 10) then ''negative'' else ''neutral'')
                         score)"

definition positivePatterns :: "pattern list" where
  "positivePatterns =
     [(''i feel '', [''good'', ''great'', ''wonderful'', ''happy'', ''blessed'']),
      (''i am '', [''happy'', ''excited'', ''grateful'', ''content'']),
      (''things are '', [''good'', ''great'', ''wonderful''])]"

definition negativePatterns :: "pattern list" where
  "negativePatterns =
     [(''i feel '', [''sad'', ''bad'', ''terrible'', ''hopeless'', ''worthless'']),
      (''i am '', [''sad'', ''depressed'', ''angry'', ''lonely'']),
      (''things are '', [''bad'', ''terrible'', ''awful'']),
      (''i want to '', [''die'', ''kill myself'', ''end it all''])]"

definition countMatches :: "jsstring \<Rightarrow> pattern list \<Rightarrow> int" where
  "countMatches text patterns =
     fold (\<lambda>pattern matches. if test pattern text then matches + 1 else matches)
          patterns 0"

definition patternSentiment :: "jsstring \<Rightarrow> scorerResult" where
  "patternSentiment text =
     (let positiveMatches = countMatches text positivePatterns;
          negativeMatches = countMatches text negativePatterns
      in if positiveMatches > negativeMatches
         then Pattern ''positive''
                (of_int positiveMatches / of_int (positiveMatches + negativeMatches))
         else if negativeMatches > positiveMatches
         then Pattern ''negative''
                (of_int negativeMatches / of_int (positiveMatches + negativeMatches))
         else Pattern ''neutral'' (1 / 2))"

record sentimentCounts =
  positive :: int
  negative :: int
  neutral :: int

text \<open>
  \<open>sentimentCounts[score.sentiment]++\<close>. A label other than the three would create a
  property of its own, which nothing reads.
\<close>

definition increment :: "scorerResult \<Rightarrow> sentimentCounts \<Rightarrow> sentimentCounts" where
  "increment result c =
     (if sentiment_of result = ''positive'' then c\<lparr>positive := positive c + 1\<rparr>
      else if sentiment_of result = ''negative'' then c\<lparr>negative := negative c + 1\<rparr>
      else if sentiment_of result = ''neutral'' then c\<lparr>neutral := neutral c + 1\<rparr>
      else c)"

record combinedSentiment =
  sentiment :: string
  confidence :: number

text \<open>\<open>maxCount / scores.length\<close> is \<open>0 / 0\<close> for an empty array.\<close>

definition combineSentiments :: "scorerResult list \<Rightarrow> combinedSentiment" where
  "combineSentiments scores =
     (let sentimentCounts = fold increment scores \<lparr>positive = 0, negative = 0, neutral = 0\<rparr>;
          maxCount = max (max (positive sentimentCounts) (negative sentimentCounts))
                         (neutral sentimentCounts);
          quotient = (if scores = [] then NaN
                      else Num (double (of_int maxCount / of_int (int (length scores)))))
      in if positive sentimentCounts = maxCount
         then \<lparr>sentiment = ''positive'', confidence = quotient\<rparr>
         else if negative sentimentCounts = maxCount
         then \<lparr>sentiment = ''negative'', confidence = quotient\<rparr>
         else \<lparr>sentiment = ''neutral'', confidence = quotient\<rparr>)"

text \<open>
  The first loop of \<open>detectEmotion\<close> and of \<open>detectIntent\<close>, which is the same code
  over the two lexicons: the object of the categories with a positive score.
\<close>

definition keywordScores :: "(string \<times> string list) list \<Rightarrow> jsstring \<Rightarrow> int object" where
  "keywordScores lexicon text =
     fold (\<lambda>(category, keywords) scores.
             let score = countIncluded text keywords
             in if score > 0 then assign scores category score else scores)
          lexicon []"

text \<open>
  The default when \<open>Object.keys(scores).length === 0\<close>, and otherwise
  \<open>Object.entries(scores).reduce((a, b) => scores[a[0]] > scores[b[0]] ? a : b)[0]\<close>.
\<close>

definition detectEmotion :: "jsstring \<Rightarrow> error + string" where
  "detectEmotion text =
     (let emotionScores = keywordScores emotionKeywords text
      in if length (map fst emotionScores) = 0 then Inr ''neutral''
         else (case reduce (higher emotionScores) emotionScores of
                 Inl e \<Rightarrow> Inl e
               | Inr best \<Rightarrow> Inr (fst best)))"

definition detectIntent :: "jsstring \<Rightarrow> error + string" where
  "detectIntent text =
     (let intentScores = keywordScores intentKeywords text
      in if length (map fst intentScores) = 0 then Inr ''general''
         else (case reduce (higher intentScores) intentScores of
                 Inl e \<Rightarrow> Inl e
               | Inr best \<Rightarrow> Inr (fst best)))"

definition calculateConfidence :: "'a combinedSentiment_scheme \<Rightarrow> string \<Rightarrow> string \<Rightarrow> number" where
  "calculateConfidence sentiment' emotion' intent' =
     (let c = multiply (confidence sentiment') 100;
          c = (if emotion' = ''suicidal'' then increase c 20 else c);
          c = (if emotion' = ''depression'' \<or> emotion' = ''anxiety'' then increase c 10 else c);
          c = (if intent' = ''help_request'' then increase c 15 else c);
          c = (if intent' = ''meditation'' \<or> intent' = ''sleep'' then increase c 10 else c)
      in Math_min c 100)"

record scoreDetails =
  vader :: scorerResult
  keyword :: scorerResult
  pattern :: scorerResult
  combined :: combinedSentiment

text \<open>
  The result of \<open>analyzeSentiment\<close> has the fields \<open>sentiment\<close> and \<open>confidence\<close> of a
  combined sentiment and three more.
\<close>

record analysis = combinedSentiment +
  emotion :: string
  intent :: string
  scores :: scoreDetails

definition analyzeSentiment :: "jsstring \<Rightarrow> error + analysis" where
  "analyzeSentiment text =
     (let cleanedText = cleanText text;
          vaderScore = vaderSentiment cleanedText;
          keywordScore = keywordSentiment cleanedText;
          patternScore = patternSentiment cleanedText;
          combinedSentiment = combineSentiments [vaderScore, keywordScore, patternScore]
      in case detectEmotion cleanedText of
           Inl e \<Rightarrow> Inl e
         | Inr emotion' \<Rightarrow>
             (case detectIntent cleanedText of
                Inl e \<Rightarrow> Inl e
              | Inr intent' \<Rightarrow>
                  let confidence = calculateConfidence combinedSentiment emotion' intent'
                  in Inr \<lparr>sentiment = sentiment combinedSentiment,
                          confidence = confidence,
                          emotion = emotion',
                          intent = intent',
                          scores = \<lparr>vader = vaderScore, keyword = keywordScore,
                                     pattern = patternScore,
                                     combined = combinedSentiment\<rparr>\<rparr>))"

subsection \<open>Conversation history\<close>

record message =
  sender_type :: string
  content :: jsstring

text \<open>\<open>acc[val] = (acc[val] || 0) + 1\<close>, folded from the empty object.\<close>

definition countOccurrences :: "string list \<Rightarrow> int object" where
  "countOccurrences arr =
     foldl (\<lambda>acc val. assign acc val ((case map_of acc val of None \<Rightarrow> 0 | Some n \<Rightarrow> n) + 1))
           [] arr"

definition getDominant :: "int object \<Rightarrow> error + string" where
  "getDominant counts =
     (case reduce (higher counts) counts of
        Inl e \<Rightarrow> Inl e
      | Inr best \<Rightarrow> Inr (fst best))"

text \<open>
  The loop over the messages, which pushes the sentiment and the emotion of every message
  of the user and stops at the first exception.
\<close>

fun collect ::
  "message list \<Rightarrow> string list \<times> string list \<Rightarrow> error + string list \<times> string list" where
  "collect [] (sentiments, emotions) = Inr (sentiments, emotions)"
| "collect (message # messages) (sentiments, emotions) =
     (if sender_type message = ''user''
      then (case analyzeSentiment (content message) of
              Inl e \<Rightarrow> Inl e
            | Inr analysis \<Rightarrow>
                collect messages (sentiments @ [sentiment analysis],
                                  emotions @ [emotion analysis]))
      else collect messages (sentiments, emotions))"

record trend =
  sentiment_distribution :: "int object"
  emotion_distribution :: "int object"
  dominant_sentiment :: string
  dominant_emotion :: string
  message_count :: nat

text \<open>
  The result is \<open>Inr None\<close> where the source returns \<open>null\<close> and \<open>Inl\<close> of the
  exception where it throws.
\<close>

definition analyzeConversationHistory :: "message list \<Rightarrow> error + trend option" where
  "analyzeConversationHistory messages =
     (if length messages = 0 then Inr None
      else
        case collect messages ([], []) of
          Inl e \<Rightarrow> Inl e
        | Inr (sentiments, emotions) \<Rightarrow>
            let sentimentCounts = countOccurrences sentiments;
                emotionCounts = countOccurrences emotions
            in case getDominant sentimentCounts of
                 Inl e \<Rightarrow> Inl e
               | Inr dominantSentiment \<Rightarrow>
                   (case getDominant emotionCounts of
                      Inl e \<Rightarrow> Inl e
                    | Inr dominantEmotion \<Rightarrow>
                        Inr (Some \<lparr>sentiment_distribution = sentimentCounts,
                                   emotion_distribution = emotionCounts,
                                   dominant_sentiment = dominantSentiment,
                                   dominant_emotion = dominantEmotion,
                                   message_count = length messages\<rparr>)))"

section \<open>Crisis detection\<close>

definition detectCrisisLevel :: "'a analysis_scheme \<Rightarrow> int" where
  "detectCrisisLevel analysis =
     (let level = 0;
          level = (if sentiment analysis = ''negative'' then level + 1 else level);
          level = (if sentiment analysis = ''positive'' then level - 1 else level);
          level = (if emotion analysis = ''suicidal'' then level + 5
                   else if emotion analysis = ''depression'' then level + 3
                   else if emotion analysis = ''anxiety'' then level + 2
                   else if emotion analysis = ''anger'' then level + 2
                   else if emotion analysis = ''loneliness'' then level + 1
                   else level);
          level = (if exceeds (confidence analysis) 80 then level + 1 else level);
          level = (if exceeds (confidence analysis) 90 then level + 1 else level);
          level = (if intent analysis = ''help_request'' then level + 1 else level)
      in max 0 (min level 5))"

text \<open>
  The request handler inserts a crisis flag when the level is positive; this is the
  \<open>flag_type\<close> it inserts, \<open>None\<close> when it inserts nothing.
\<close>

definition flag_type :: "int \<Rightarrow> string option" where
  "flag_type crisisLevel =
     (if crisisLevel > 0
      then Some (if crisisLevel \<ge> 5 then ''suicidal'' else ''crisis'')
      else None)"

section \<open>Notions of the specification\<close>

text \<open>The votes of a list of scorer results for a label.\<close>

definition votes :: "scorerResult list \<Rightarrow> string \<Rightarrow> nat" where
  "votes results label = length (filter (\<lambda>r. sentiment_of r = label) results)"

text \<open>
  The crisis scorer in the words of the specification: the points of the sentiment, of the
  emotion, of the confidence and of the intent are added, and the sum is clamped to the
  interval from 0 to 5.
\<close>

definition sentiment_points :: "string \<Rightarrow> int" where
  "sentiment_points s =
     (if s = ''negative'' then 1 else 0) + (if s = ''positive'' then - 1 else 0)"

definition emotion_points :: "string \<Rightarrow> int" where
  "emotion_points e =
     (if e = ''suicidal'' then 5 else if e = ''depression'' then 3
      else if e = ''anxiety'' then 2 else if e = ''anger'' then 2
      else if e = ''loneliness'' then 1 else 0)"

definition confidence_points :: "number \<Rightarrow> int" where
  "confidence_points c = (if exceeds c 80 then 1 else 0) + (if exceeds c 90 then 1 else 0)"

definition intent_points :: "string \<Rightarrow> int" where
  "intent_points i = (if i = ''help_request'' then 1 else 0)"

definition clamp :: "int \<Rightarrow> int \<Rightarrow> int \<Rightarrow> int" where
  "clamp lo hi x = (if x < lo then lo else if hi < x then hi else x)"

definition AssessCrisis_level :: "string \<Rightarrow> string \<Rightarrow> string \<Rightarrow> number \<Rightarrow> int" where
  "AssessCrisis_level s e i c =
     clamp 0 5 (sentiment_points s + emotion_points e + confidence_points c + intent_points i)"

text \<open>
  The "no data" trend of the specification: a trend with empty distributions and a message
  count of 0.
\<close>

definition no_data_trend :: "error + trend option \<Rightarrow> bool" where
  "no_data_trend r =
     (case r of
        Inr (Some t) \<Rightarrow>
          sentiment_distribution t = [] \<and> emotion_distribution t = [] \<and> message_count t = 0
      | _ \<Rightarrow> False)"

text \<open>The categories of a lexicon that match a text at least once, with their counts.\<close>

definition scored :: "jsstring \<Rightarrow> (string \<times> string list) list \<Rightarrow> int object" where
  "scored text lexicon =
     filter (\<lambda>e. 0 < snd e) (map (\<lambda>e. (fst e, countIncluded text (snd e))) lexicon)"

section \<open>The sentiment combiner\<close>

lemma vaderSentiment_label:
  "sentiment_of (vaderSentiment t) \<in> {''positive'', ''negative'', ''neutral''}"
  by (simp add: vaderSentiment_def Let_def)

lemma keywordSentiment_label:
  "sentiment_of (keywordSentiment t) \<in> {''positive'', ''negative'', ''neutral''}"
  by (simp add: keywordSentiment_def Let_def)

lemma patternSentiment_label:
  "sentiment_of (patternSentiment t) \<in> {''positive'', ''negative'', ''neutral''}"
  by (simp add: patternSentiment_def Let_def)

lemma fold_increment:
  "fold increment rs c =
     \<lparr>positive = positive c + int (votes rs ''positive''),
      negative = negative c + int (votes rs ''negative''),
      neutral = neutral c + int (votes rs ''neutral'')\<rparr>"
  by (induction rs arbitrary: c) (auto simp: votes_def increment_def)

lemma votes_total:
  "list_all (\<lambda>r. sentiment_of r \<in> {''positive'', ''negative'', ''neutral''}) rs \<Longrightarrow>
   votes rs ''positive'' + votes rs ''negative'' + votes rs ''neutral'' = length rs"
  by (induction rs) (auto simp: votes_def)

lemma votes_other:
  assumes "list_all (\<lambda>r. sentiment_of r \<in> {''positive'', ''negative'', ''neutral''}) rs"
    and "l \<notin> {''positive'', ''negative'', ''neutral''}"
  shows "votes rs l = 0"
  using assms by (induction rs) (auto simp: votes_def)

lemma combineSentiments_votes:
  assumes "rs \<noteq> []"
  shows "combineSentiments rs =
           \<lparr>sentiment =
              (if votes rs ''positive''
                    = max (max (votes rs ''positive'') (votes rs ''negative'')) (votes rs ''neutral'')
               then ''positive''
               else if votes rs ''negative''
                    = max (max (votes rs ''positive'') (votes rs ''negative'')) (votes rs ''neutral'')
               then ''negative'' else ''neutral''),
            confidence =
              Num (double (of_nat (max (max (votes rs ''positive'') (votes rs ''negative''))
                                       (votes rs ''neutral''))
                           / of_nat (length rs)))\<rparr>"
proof -
  have m: "max (max (int (votes rs ''positive'')) (int (votes rs ''negative'')))
               (int (votes rs ''neutral''))
           = int (max (max (votes rs ''positive'') (votes rs ''negative'')) (votes rs ''neutral''))"
    by simp
  show ?thesis
    using assms unfolding combineSentiments_def fold_increment Let_def
    by (simp only: m sentimentCounts.simps add_0 of_int_of_nat_eq int_int_eq if_False)
       (simp)
qed

text \<open>
  Claim C5. Given the results of the three scorers, each with one of the three labels, the
  combiner returns a label with the most votes, with the confidence votes / 3 (the
  quotient of the source, a double); if
  \<open>positive\<close> has the most votes it is returned, and \<open>neutral\<close> is not returned if
  \<open>negative\<close> has the most votes.
\<close>

theorem combineSentiments_majority:
  assumes "sentiment_of a \<in> {''positive'', ''negative'', ''neutral''}"
    and "sentiment_of b \<in> {''positive'', ''negative'', ''neutral''}"
    and "sentiment_of c \<in> {''positive'', ''negative'', ''neutral''}"
  shows "sentiment (combineSentiments [a, b, c]) \<in> {''positive'', ''negative'', ''neutral''}
       \<and> (\<forall>l. votes [a, b, c] l \<le> votes [a, b, c] (sentiment (combineSentiments [a, b, c])))
       \<and> confidence (combineSentiments [a, b, c])
            = Num (double (of_nat (votes [a, b, c] (sentiment (combineSentiments [a, b, c])))
                           / 3))
       \<and> (votes [a, b, c] ''positive'' = votes [a, b, c] (sentiment (combineSentiments [a, b, c]))
            \<longrightarrow> sentiment (combineSentiments [a, b, c]) = ''positive'')
       \<and> (votes [a, b, c] ''negative'' = votes [a, b, c] (sentiment (combineSentiments [a, b, c]))
            \<longrightarrow> sentiment (combineSentiments [a, b, c]) \<noteq> ''neutral'')"
proof -
  let ?rs = "[a, b, c]"
  let ?p = "votes ?rs ''positive''" and ?n = "votes ?rs ''negative''"
    and ?u = "votes ?rs ''neutral''"
  let ?m = "max (max ?p ?n) ?u"
  let ?r = "combineSentiments ?rs"
  have all: "list_all (\<lambda>r. sentiment_of r \<in> {''positive'', ''negative'', ''neutral''}) ?rs"
    using assms by simp
  have r: "?r = \<lparr>sentiment = (if ?p = ?m then ''positive''
                               else if ?n = ?m then ''negative'' else ''neutral''),
                 confidence = Num (double (of_nat ?m / of_nat (length ?rs)))\<rparr>"
    by (rule combineSentiments_votes) simp
  have vm: "votes ?rs (sentiment ?r) = ?m"
    unfolding r by (auto simp: max_def)
  have le: "votes ?rs l \<le> ?m" for l
  proof (cases "l \<in> {''positive'', ''negative'', ''neutral''}")
    case True
    then show ?thesis by auto
  next
    case False
    from votes_other [OF all False] show ?thesis by simp
  qed
  have 1: "sentiment ?r \<in> {''positive'', ''negative'', ''neutral''}"
    unfolding r by simp
  have 2: "\<forall>l. votes ?rs l \<le> votes ?rs (sentiment ?r)"
    unfolding vm using le by blast
  have 3: "confidence ?r = Num (double (of_nat (votes ?rs (sentiment ?r)) / 3))"
    unfolding vm unfolding r by simp
  have 4: "?p = votes ?rs (sentiment ?r) \<longrightarrow> sentiment ?r = ''positive''"
    unfolding vm unfolding r by simp
  have 5: "?n = votes ?rs (sentiment ?r) \<longrightarrow> sentiment ?r \<noteq> ''neutral''"
    unfolding vm unfolding r by simp
  from 1 2 3 4 5 show ?thesis by blast
qed

text \<open>
  The three labels with one vote each: \<open>positive\<close> is returned, with the confidence
  \<open>1 / 3\<close>.
\<close>

theorem combineSentiments_majority_witness:
  "sentiment (combineSentiments
      [Vader ''neutral'' 0 0 0, Keyword ''negative'' (- 1), Pattern ''positive'' 1])
     = ''positive''
   \<and> confidence (combineSentiments
      [Vader ''neutral'' 0 0 0, Keyword ''negative'' (- 1), Pattern ''positive'' 1])
     = Num (double (1 / 3))"
proof -
  let ?rs = "[Vader ''neutral'' 0 0 0, Keyword ''negative'' (- 1), Pattern ''positive'' 1]"
  have v: "votes ?rs l = 1" if "l \<in> {''positive'', ''negative'', ''neutral''}" for l
    using that by (auto simp: votes_def)
  have m: "sentiment (combineSentiments ?rs) \<in> {''positive'', ''negative'', ''neutral''}"
    and c: "confidence (combineSentiments ?rs)
              = Num (double (of_nat (votes ?rs (sentiment (combineSentiments ?rs))) / 3))"
    and t: "votes ?rs ''positive'' = votes ?rs (sentiment (combineSentiments ?rs))
              \<longrightarrow> sentiment (combineSentiments ?rs) = ''positive''"
    using combineSentiments_majority
      [of "Vader ''neutral'' 0 0 0" "Keyword ''negative'' (- 1)" "Pattern ''positive'' 1"]
    by simp_all
  from v [OF m] have one: "votes ?rs (sentiment (combineSentiments ?rs)) = 1" .
  from t have "sentiment (combineSentiments ?rs) = ''positive''"
    unfolding one by (simp add: v)
  moreover from c have "confidence (combineSentiments ?rs) = Num (double (1 / 3))"
    unfolding one by simp
  ultimately show ?thesis by (rule conjI)
qed

section \<open>The confidence of a classification\<close>

lemma votes_max3:
  assumes "list_all (\<lambda>r. sentiment_of r \<in> {''positive'', ''negative'', ''neutral''}) [a, b, c]"
  shows "1 \<le> max (max (votes [a, b, c] ''positive'') (votes [a, b, c] ''negative''))
                  (votes [a, b, c] ''neutral'')
       \<and> max (max (votes [a, b, c] ''positive'') (votes [a, b, c] ''negative''))
             (votes [a, b, c] ''neutral'') \<le> 3"
  using votes_total [OF assms] by (simp add: max_def)

text \<open>The doubles \<open>1 / 3\<close>, \<open>2 / 3\<close> and \<open>3 / 3\<close>, and the double \<open>(1 / 3) * 100\<close>.\<close>

text \<open>
  Rounding at known values: the literal \<open>0.1\<close>, a number that needs no rounding, the
  two kinds of tie at the 54th bit, and a negative number.
\<close>

lemma double_examples:
  "double (1 / 10) = 3602879701896397 / 36028797018963968"
  "double (3 / 2) = 3 / 2"
  "double 9007199254740993 = 9007199254740992"
  "double 9007199254740995 = 9007199254740996"
  "double (- (1 / 3)) = - (6004799503160661 / 18014398509481984)"
  by code_simp+

lemma double_one_third: "double (1 / 3) = 6004799503160661 / 18014398509481984"
  by code_simp

lemma double_two_thirds: "double (2 / 3) = 6004799503160661 / 9007199254740992"
  by code_simp

lemma double_one: "double 1 = 1"
  by code_simp

lemma double_one_third_hundredfold:
  "double (double (1 / 3) * 100) = 2345624805922133 / 70368744177664"
  by code_simp

lemma combineSentiments_three:
  assumes "list_all (\<lambda>r. sentiment_of r \<in> {''positive'', ''negative'', ''neutral''}) [a, b, c]"
  shows "confidence (combineSentiments [a, b, c])
           \<in> {Num (double (1 / 3)), Num (double (2 / 3)), Num 1}"
proof -
  let ?m = "max (max (votes [a, b, c] ''positive'') (votes [a, b, c] ''negative''))
                (votes [a, b, c] ''neutral'')"
  have c: "confidence (combineSentiments [a, b, c]) = Num (double (of_nat ?m / 3))"
    by (subst combineSentiments_votes) simp_all
  from votes_max3 [OF assms] have "?m = 1 \<or> ?m = 2 \<or> ?m = 3" by arith
  then show ?thesis
  proof (elim disjE)
    assume "?m = 1"
    then show ?thesis unfolding c by simp
  next
    assume "?m = 2"
    then show ?thesis unfolding c by simp
  next
    assume "?m = 3"
    then show ?thesis unfolding c by (simp add: double_one)
  qed
qed

text \<open>
  The products and the sums of \<open>calculateConfidence\<close> for the three possible combined
  confidences, rounded as the source computes them.
\<close>

lemma calibration_table:
  "multiply (Num (6004799503160661 / 18014398509481984)) 100 = Num (2345624805922133 / 70368744177664)"
  "multiply (Num (6004799503160661 / 9007199254740992)) 100 = Num (2345624805922133 / 35184372088832)"
  "multiply (Num 1) 100 = Num 100"
  "increase (Num (2345624805922133 / 70368744177664)) 20 = Num (3752999689475413 / 70368744177664)"
  "increase (Num (2345624805922133 / 70368744177664)) 10 = Num (3049312247698773 / 70368744177664)"
  "increase (Num (2345624805922133 / 35184372088832)) 20 = Num (3049312247698773 / 35184372088832)"
  "increase (Num (2345624805922133 / 35184372088832)) 10 = Num (2697468526810453 / 35184372088832)"
  "increase (Num 100) 20 = Num 120"
  "increase (Num 100) 10 = Num 110"
  "increase (Num (3752999689475413 / 70368744177664)) 15 = Num (4808530852140373 / 70368744177664)"
  "increase (Num (3752999689475413 / 70368744177664)) 10 = Num (4456687131252053 / 70368744177664)"
  "increase (Num (3049312247698773 / 70368744177664)) 15 = Num (4104843410363733 / 70368744177664)"
  "increase (Num (3049312247698773 / 70368744177664)) 10 = Num (3752999689475413 / 70368744177664)"
  "increase (Num (3049312247698773 / 35184372088832)) 15 = Num (3577077829031253 / 35184372088832)"
  "increase (Num (3049312247698773 / 35184372088832)) 10 = Num (3401155968587093 / 35184372088832)"
  "increase (Num (2697468526810453 / 35184372088832)) 15 = Num (3225234108142933 / 35184372088832)"
  "increase (Num (2697468526810453 / 35184372088832)) 10 = Num (3049312247698773 / 35184372088832)"
  "increase (Num 120) 15 = Num 135"
  "increase (Num 120) 10 = Num 130"
  "increase (Num 110) 15 = Num 125"
  "increase (Num 110) 10 = Num 120"
  "increase (Num (2345624805922133 / 70368744177664)) 15 = Num (3401155968587093 / 70368744177664)"
  "increase (Num (2345624805922133 / 35184372088832)) 15 = Num (2873390387254613 / 35184372088832)"
  "increase (Num 100) 15 = Num 115"
  by code_simp+

lemma calculateConfidence_cases:
  assumes s: "confidence s = Num q" and q: "q \<in> {double (1 / 3), double (2 / 3), 1}"
  shows "case calculateConfidence s e i of
           NaN \<Rightarrow> False
         | Num c \<Rightarrow>
             (case multiply (Num q) 100 of
                NaN \<Rightarrow> False
              | Num p \<Rightarrow> 2345624805922133 / 70368744177664 \<le> c \<and> c \<le> 100
                          \<and> min p 100 \<le> c)"
proof -
  from q consider "q = double (1 / 3)" | "q = double (2 / 3)" | "q = 1" by blast
  then show ?thesis
  proof cases
    case 1
    show ?thesis
      unfolding calculateConfidence_def s 1 double_one_third
      by (simp add: calibration_table Let_def del: multiply.simps increase.simps)
  next
    case 2
    show ?thesis
      unfolding calculateConfidence_def s 2 double_two_thirds
      by (simp add: calibration_table Let_def del: multiply.simps increase.simps)
  next
    case 3
    show ?thesis
      unfolding calculateConfidence_def s 3
      by (simp add: calibration_table Let_def del: multiply.simps increase.simps)
  qed
qed

lemma calculateConfidence_bounds:
  assumes s: "confidence s = Num q" and q: "q \<in> {double (1 / 3), double (2 / 3), 1}"
  shows "\<exists>c p. calculateConfidence s e i = Num c \<and> multiply (Num q) 100 = Num p
              \<and> 2345624805922133 / 70368744177664 \<le> c \<and> c \<le> 100 \<and> min p 100 \<le> c"
  using calculateConfidence_cases [OF s q, of e i]
  by (cases "calculateConfidence s e i"; cases "multiply (Num q) 100") simp_all

lemma reduce_returns: "xs \<noteq> [] \<Longrightarrow> \<exists>r. reduce f xs = Inr r"
  by (cases xs) simp_all

lemma detectEmotion_returns: "\<exists>e. detectEmotion text = Inr e"
proof (cases "keywordScores emotionKeywords text = []")
  case True
  then show ?thesis by (simp add: detectEmotion_def)
next
  case False
  from reduce_returns [OF False]
  obtain r where "reduce (higher (keywordScores emotionKeywords text))
                    (keywordScores emotionKeywords text) = Inr r"
    by blast
  with False show ?thesis by (simp add: detectEmotion_def)
qed

lemma detectIntent_returns: "\<exists>i. detectIntent text = Inr i"
proof (cases "keywordScores intentKeywords text = []")
  case True
  then show ?thesis by (simp add: detectIntent_def)
next
  case False
  from reduce_returns [OF False]
  obtain r where "reduce (higher (keywordScores intentKeywords text))
                    (keywordScores intentKeywords text) = Inr r"
    by blast
  with False show ?thesis by (simp add: detectIntent_def)
qed

text \<open>\<open>analyzeSentiment\<close> throws no exception, and its result is made of these parts.\<close>

lemma analyzeSentiment_returns:
  "\<exists>a. analyzeSentiment text = Inr a
       \<and> detectEmotion (cleanText text) = Inr (emotion a)
       \<and> detectIntent (cleanText text) = Inr (intent a)
       \<and> combined (scores a) =
           combineSentiments [vaderSentiment (cleanText text), keywordSentiment (cleanText text),
                              patternSentiment (cleanText text)]
       \<and> sentiment a = sentiment (combined (scores a))
       \<and> confidence a = calculateConfidence (combined (scores a)) (emotion a) (intent a)"
proof -
  obtain e where e: "detectEmotion (cleanText text) = Inr e"
    using detectEmotion_returns by blast
  obtain i where i: "detectIntent (cleanText text) = Inr i"
    using detectIntent_returns by blast
  show ?thesis
    by (simp add: analyzeSentiment_def Let_def e i)
qed

lemma combined_confidence_values:
  "confidence (combineSentiments [vaderSentiment t, keywordSentiment t, patternSentiment t])
     \<in> {Num (double (1 / 3)), Num (double (2 / 3)), Num 1}"
  by (rule combineSentiments_three)
     (simp add: vaderSentiment_label keywordSentiment_label patternSentiment_label
           del: insert_iff)

lemma analyzeSentiment_confidence:
  "\<exists>a q c. analyzeSentiment text = Inr a
       \<and> confidence (combined (scores a)) = Num q
       \<and> q \<in> {double (1 / 3), double (2 / 3), 1}
       \<and> confidence a = Num c
       \<and> 2345624805922133 / 70368744177664 \<le> c \<and> c \<le> 100
       \<and> min (double (q * 100)) 100 \<le> c"
proof -
  obtain a where a: "analyzeSentiment text = Inr a"
    and comb: "combined (scores a) =
           combineSentiments [vaderSentiment (cleanText text), keywordSentiment (cleanText text),
                              patternSentiment (cleanText text)]"
    and conf: "confidence a = calculateConfidence (combined (scores a)) (emotion a) (intent a)"
    using analyzeSentiment_returns by blast
  from combined_confidence_values [of "cleanText text"]
  obtain q where q: "confidence (combined (scores a)) = Num q"
    "q \<in> {double (1 / 3), double (2 / 3), 1}"
    unfolding comb by auto
  from calculateConfidence_bounds [OF q]
  obtain c p where c: "calculateConfidence (combined (scores a)) (emotion a) (intent a) = Num c"
    and p: "multiply (Num q) 100 = Num p"
    and l: "2345624805922133 / 70368744177664 \<le> c" and u: "c \<le> 100"
    and m: "min p 100 \<le> c"
    by blast
  from p have "p = double (q * 100)" by simp
  with m have "min (double (q * 100)) 100 \<le> c" by simp
  with a q conf c l u show ?thesis by auto
qed

text \<open>
  Claim C3. For every text, \<open>analyzeSentiment\<close> returns a classification whose
  confidence is a number (not \<open>NaN\<close>) between 0 and 100.
\<close>

theorem confidence_range:
  "\<exists>a c. analyzeSentiment text = Inr a \<and> confidence a = Num c \<and> 0 \<le> c \<and> c \<le> 100"
proof -
  obtain a q c where "analyzeSentiment text = Inr a" and "confidence a = Num c"
    and "2345624805922133 / 70368744177664 \<le> c" and "c \<le> 100"
    using analyzeSentiment_confidence by blast
  moreover from this have "0 \<le> c" by simp
  ultimately show ?thesis by blast
qed

text \<open>
  Claim C10, as amended. For every text, the confidence \<open>q\<close> of the combined sentiment is
  at least the double \<open>1 / 3\<close>; the confidence \<open>c\<close> of the classification is at least the
  double \<open>q * 100\<close> capped at 100, hence at least the double \<open>(1 / 3) * 100\<close>, which is
  33.33333333333333 and greater than 33, and it is not 0.
\<close>

theorem confidence_at_least_a_third:
  "\<exists>a q c. analyzeSentiment text = Inr a
       \<and> confidence (combined (scores a)) = Num q \<and> double (1 / 3) \<le> q
       \<and> confidence a = Num c \<and> min (double (q * 100)) 100 \<le> c
       \<and> double (double (1 / 3) * 100) \<le> c \<and> 33 < c \<and> c \<noteq> 0"
proof -
  obtain a q c where *: "analyzeSentiment text = Inr a"
    "confidence (combined (scores a)) = Num q" "q \<in> {double (1 / 3), double (2 / 3), 1}"
    "confidence a = Num c" "min (double (q * 100)) 100 \<le> c"
    and l: "2345624805922133 / 70368744177664 \<le> c"
    using analyzeSentiment_confidence by blast
  from *(3) have "double (1 / 3) \<le> q"
    by (auto simp: double_one_third double_two_thirds)
  moreover from l have "double (double (1 / 3) * 100) \<le> c"
    unfolding double_one_third_hundredfold .
  moreover from l have "33 < c" and "c \<noteq> 0"
    by simp_all
  ultimately show ?thesis using * by blast
qed

lemma cleanText_love:
  "cleanText (str ''love badly'') = str ''love badly''"
  by (simp add: cleanText_def str_def toLowerCase_def removeNonLetters_def trim_def
        isWhiteSpace_def isAsciiLetter_def)

lemma vaderSentiment_love:
  "vaderSentiment (str ''love badly'') = Vader ''positive'' (1 / 2) 1 0"
  by (simp add: vaderSentiment_def str_def positiveWords_def negativeWords_def)

lemma keywordSentiment_love:
  "keywordSentiment (str ''love badly'') = Keyword ''negative'' (- 1)"
  by (simp add: keywordSentiment_def countIncluded_def str_def positiveKeywords_def
        negativeKeywords_def)

lemma patternSentiment_love:
  "patternSentiment (str ''love badly'') = Pattern ''neutral'' (1 / 2)"
  by (simp add: patternSentiment_def countMatches_def test_def canonicalize_def str_def
        positivePatterns_def negativePatterns_def)

lemma emotionScores_love: "keywordScores emotionKeywords (str ''love badly'') = []"
  by (simp add: keywordScores_def emotionKeywords_def countIncluded_def str_def)

lemma intentScores_love: "keywordScores intentKeywords (str ''love badly'') = []"
  by (simp add: keywordScores_def intentKeywords_def countIncluded_def str_def)

lemma combineSentiments_love:
  "combineSentiments [Vader ''positive'' (1 / 2) 1 0, Keyword ''negative'' (- 1),
                      Pattern ''neutral'' (1 / 2)]
     = \<lparr>sentiment = ''positive'',
        confidence = Num (6004799503160661 / 18014398509481984)\<rparr>"
  by code_simp

lemma calculateConfidence_love:
  "calculateConfidence \<lparr>sentiment = ''positive'',
                         confidence = Num (6004799503160661 / 18014398509481984)\<rparr>
     ''neutral'' ''general''
     = Num (2345624805922133 / 70368744177664)"
  by code_simp

lemma analyzeSentiment_love:
  "analyzeSentiment (str ''love badly'') =
     Inr \<lparr>sentiment = ''positive'', confidence = Num (2345624805922133 / 70368744177664),
          emotion = ''neutral'', intent = ''general'',
          scores = \<lparr>vader = Vader ''positive'' (1 / 2) 1 0,
                     keyword = Keyword ''negative'' (- 1),
                     pattern = Pattern ''neutral'' (1 / 2),
                     combined = \<lparr>sentiment = ''positive'',
                                   confidence =
                                     Num (6004799503160661 / 18014398509481984)\<rparr>\<rparr>\<rparr>"
proof -
  have e: "detectEmotion (str ''love badly'') = Inr ''neutral''"
    unfolding detectEmotion_def emotionScores_love by simp
  have i: "detectIntent (str ''love badly'') = Inr ''general''"
    unfolding detectIntent_def intentScores_love by simp
  show ?thesis
    by (simp add: analyzeSentiment_def cleanText_love vaderSentiment_love keywordSentiment_love
          patternSentiment_love e i combineSentiments_love calculateConfidence_love)
qed

text \<open>
  In \<open>love badly\<close> the three scorers give one vote to each label, and no emotion or
  intent keyword occurs: the confidence is the double \<open>(1 / 3) * 100\<close>, which is below
  \<open>100 / 3\<close>.
\<close>

theorem confidence_below_100_thirds_counterexample:
  "map_sum id confidence (analyzeSentiment (str ''love badly''))
     = Inr (Num (2345624805922133 / 70368744177664))
   \<and> (2345624805922133 / 70368744177664 :: rat) < 100 / 3"
  unfolding analyzeSentiment_love by simp

section \<open>The crisis level\<close>

lemma if_add: "(if P then (x::int) + a else x + b) = x + (if P then a else b)"
  by simp

lemma if_add0: "(if P then (x::int) + a else x) = x + (if P then a else 0)"
  by simp

lemma if_sub0: "(if P then (x::int) - a else x) = x + (if P then - a else 0)"
  by simp

lemma clamp_max_min: "max 0 (min x 5) = clamp 0 5 x"
  by (simp add: clamp_def max_def min_def)

lemma clamp_bounds: "0 \<le> clamp 0 5 x \<and> clamp 0 5 x \<le> 5"
  by (simp add: clamp_def)

lemma detectCrisisLevel_sum:
  "detectCrisisLevel a =
     clamp 0 5 (sentiment_points (sentiment a) + emotion_points (emotion a)
                 + confidence_points (confidence a) + intent_points (intent a))"
  unfolding detectCrisisLevel_def sentiment_points_def emotion_points_def
    confidence_points_def intent_points_def
  by (simp only: Let_def if_add if_add0 if_sub0 clamp_max_min add_0 add.assoc)

text \<open>
  Claim C2. For every classification, the crisis level is the sum of the points of the
  specification clamped to the interval from 0 to 5, and so lies between 0 and 5.
\<close>

theorem detectCrisisLevel_additive_clamped:
  "detectCrisisLevel a
     = AssessCrisis_level (sentiment a) (emotion a) (intent a) (confidence a)
   \<and> 0 \<le> detectCrisisLevel a \<and> detectCrisisLevel a \<le> 5"
  unfolding detectCrisisLevel_sum AssessCrisis_level_def
  using clamp_bounds by (intro conjI refl) blast+

section \<open>Blank texts\<close>

lemma isWhiteSpace_lowerUnit:
  assumes "isWhiteSpace u"
  shows "lowerUnit u = [u]"
proof -
  from assms consider
    (listed) "u \<in> set [0x9, 0xA, 0xB, 0xC, 0xD, 0x20, 0xA0, 0x1680, 0x2028, 0x2029,
                0x202F, 0x205F, 0x3000, 0xFEFF]"
    | (range) "0x2000 \<le> u" "u \<le> 0x200A"
    unfolding isWhiteSpace_def by blast
  then have "\<not> (0x41 \<le> u \<and> u \<le> 0x5A) \<and> u \<noteq> 0x212A \<and> u \<noteq> 0x130"
  proof cases
    case listed
    then show ?thesis by auto
  next
    case range
    have "\<not> u \<le> 0x5A"
    proof
      assume "u \<le> 0x5A"
      with range(1) have "(0x2000 :: 16 word) \<le> 0x5A" by (rule order_trans)
      then show False by simp
    qed
    moreover have "u \<noteq> 0x212A" "u \<noteq> 0x130"
      using range by auto
    ultimately show ?thesis by blast
  qed
  then show ?thesis by simp
qed

lemma toLowerCase_whitespace: "list_all isWhiteSpace s \<Longrightarrow> toLowerCase s = s"
  by (induction s) (simp_all add: toLowerCase_def isWhiteSpace_lowerUnit del: lowerUnit.simps)

lemma removeNonLetters_whitespace: "list_all isWhiteSpace s \<Longrightarrow> removeNonLetters s = s"
  by (induction s) (simp_all add: removeNonLetters_def)

lemma dropWhile_whitespace: "list_all isWhiteSpace s \<Longrightarrow> dropWhile isWhiteSpace s = []"
  by (induction s) simp_all

lemma collapseWhiteSpace_whitespace:
  "list_all isWhiteSpace s \<Longrightarrow> collapseWhiteSpace s = (if s = [] then [] else [0x20])"
  by (cases s) (simp_all add: dropWhile_whitespace)

lemma cleanText_whitespace:
  assumes "list_all isWhiteSpace text"
  shows "cleanText text = []"
proof -
  have sp: "isWhiteSpace 0x20" by (simp add: isWhiteSpace_def)
  show ?thesis
    unfolding cleanText_def toLowerCase_whitespace [OF assms]
      removeNonLetters_whitespace [OF assms] collapseWhiteSpace_whitespace [OF assms]
    by (simp add: trim_def sp)
qed

lemma str_Cons: "str (c # cs) = of_char c # str cs"
  by (simp add: str_def)

lemma includesStr_empty_text: "includesStr [] (str (c # cs)) = False"
  by (simp add: str_Cons)

lemma analyzeSentiment_cleanText_empty:
  assumes "cleanText text = []"
  shows "analyzeSentiment text =
     Inr \<lparr>sentiment = ''neutral'', confidence = Num 100, emotion = ''neutral'',
          intent = ''general'',
          scores = \<lparr>vader = Vader ''neutral'' 0 0 0, keyword = Keyword ''neutral'' 0,
                     pattern = Pattern ''neutral'' (1 / 2),
                     combined = \<lparr>sentiment = ''neutral'', confidence = Num 1\<rparr>\<rparr>\<rparr>"
proof -
  have v: "vaderSentiment [] = Vader ''neutral'' 0 0 0"
    by (simp add: vaderSentiment_def str_Cons positiveWords_def negativeWords_def)
  have k: "keywordSentiment [] = Keyword ''neutral'' 0"
    by (simp add: keywordSentiment_def countIncluded_def includesStr_empty_text
          positiveKeywords_def negativeKeywords_def del: includesStr.simps)
  have p: "patternSentiment [] = Pattern ''neutral'' (1 / 2)"
    by (simp add: patternSentiment_def countMatches_def test_def str_Cons positivePatterns_def
          negativePatterns_def)
  have e: "detectEmotion [] = Inr ''neutral''"
    by (simp add: detectEmotion_def keywordScores_def emotionKeywords_def countIncluded_def
          includesStr_empty_text del: includesStr.simps)
  have i: "detectIntent [] = Inr ''general''"
    by (simp add: detectIntent_def keywordScores_def intentKeywords_def countIncluded_def
          includesStr_empty_text del: includesStr.simps)
  have c: "combineSentiments [Vader ''neutral'' 0 0 0, Keyword ''neutral'' 0,
             Pattern ''neutral'' (1 / 2)] = \<lparr>sentiment = ''neutral'', confidence = Num 1\<rparr>"
    by code_simp
  have f: "calculateConfidence \<lparr>sentiment = ''neutral'', confidence = Num 1\<rparr>
             ''neutral'' ''general'' = Num 100"
    by code_simp
  show ?thesis
    by (simp add: analyzeSentiment_def assms v k p e i c f)
qed

text \<open>
  Claim C4, as amended. For every text \<open>analyzeSentiment\<close> returns a classification and
  throws no exception, and for every text that is empty or consists of white space only the
  classification is neutral, neutral, general, with the confidence 100.
\<close>

theorem analyzeSentiment_blank:
  "(\<exists>a. analyzeSentiment text = Inr a)
   \<and> (list_all isWhiteSpace blank \<longrightarrow>
        (\<exists>a. analyzeSentiment blank = Inr a
           \<and> sentiment a = ''neutral'' \<and> emotion a = ''neutral'' \<and> intent a = ''general''
           \<and> confidence a = Num 100))"
proof (intro conjI impI)
  show "\<exists>a. analyzeSentiment text = Inr a"
    using analyzeSentiment_returns by blast
next
  assume "list_all isWhiteSpace blank"
  then have "cleanText blank = []" by (rule cleanText_whitespace)
  then show "\<exists>a. analyzeSentiment blank = Inr a
           \<and> sentiment a = ''neutral'' \<and> emotion a = ''neutral'' \<and> intent a = ''general''
           \<and> confidence a = Num 100"
    by (simp add: analyzeSentiment_cleanText_empty)
qed

text \<open>A space, a tab, a no-break space and an em space.\<close>

theorem analyzeSentiment_blank_witness:
  "list_all isWhiteSpace [0x20, 0x9, 0xA0, 0x2003]
   \<and> (\<exists>a. analyzeSentiment [0x20, 0x9, 0xA0, 0x2003] = Inr a
       \<and> sentiment a = ''neutral'' \<and> emotion a = ''neutral'' \<and> intent a = ''general''
       \<and> confidence a = Num 100)"
proof -
  have h: "list_all isWhiteSpace [0x20, 0x9, 0xA0, 0x2003]"
    by (simp add: isWhiteSpace_def)
  from h analyzeSentiment_blank [of "[0x20, 0x9, 0xA0, 0x2003]" "[0x20, 0x9, 0xA0, 0x2003]"]
  show ?thesis by blast
qed

text \<open>
  The classification of the empty text has the confidence 100, not 0.
\<close>

theorem empty_text_confidence_counterexample:
  "map_sum id confidence (analyzeSentiment (str [])) = Inr (Num 100)
   \<and> map_sum id confidence (analyzeSentiment (str [])) \<noteq> Inr (Num 0)"
proof -
  have "cleanText (str []) = []"
    by (simp add: cleanText_def str_def toLowerCase_def removeNonLetters_def trim_def)
  from analyzeSentiment_cleanText_empty [OF this] show ?thesis by simp
qed

section \<open>The category returned by the detectors\<close>

lemma assign_fresh: "k \<notin> fst ` set obj \<Longrightarrow> assign obj k v = obj @ [(k, v)]"
  by (induction obj) auto

lemma fold_keywordScores:
  assumes "distinct (map fst lexicon)" and "fst ` set acc \<inter> fst ` set lexicon = {}"
  shows "fold (\<lambda>(category, keywords) scores.
             let score = countIncluded text keywords
             in if score > 0 then assign scores category score else scores)
          lexicon acc = acc @ scored text lexicon"
  using assms
proof (induction lexicon arbitrary: acc)
  case Nil
  then show ?case by (simp add: scored_def)
next
  case (Cons e lexicon)
  obtain k kws where e: "e = (k, kws)" by (cases e)
  show ?case
  proof (cases "0 < countIncluded text kws")
    case True
    from Cons.prems have fresh: "k \<notin> fst ` set acc" by (auto simp: e)
    from Cons.prems
    have "fst ` set (acc @ [(k, countIncluded text kws)]) \<inter> fst ` set lexicon = {}"
      by (auto simp: e)
    with Cons.prems Cons.IH [of "acc @ [(k, countIncluded text kws)]"] True fresh
    show ?thesis by (simp add: e assign_fresh scored_def)
  next
    case False
    from Cons.prems have "fst ` set acc \<inter> fst ` set lexicon = {}" by auto
    with Cons.prems Cons.IH [of acc] False show ?thesis by (simp add: e scored_def)
  qed
qed

lemma keywordScores_scored:
  "distinct (map fst lexicon) \<Longrightarrow> keywordScores lexicon text = scored text lexicon"
  unfolding keywordScores_def by (subst fold_keywordScores) simp_all

lemma distinct_scored:
  "distinct (map fst lexicon) \<Longrightarrow> distinct (map fst (scored text lexicon))"
  unfolding scored_def by (induction lexicon) (auto simp: image_iff)

lemma higher_cases: "higher obj a b = a \<or> higher obj a b = b"
  by (auto simp: higher_def split: option.splits)

lemma foldl_higher_mem: "foldl (higher obj) a xs \<in> set (a # xs)"
proof (induction xs arbitrary: a)
  case Nil
  then show ?case by simp
next
  case (Cons x xs)
  from higher_cases [of obj a x] Cons.IH [of "higher obj a x"] show ?case by auto
qed

lemma foldl_higher_keep:
  assumes "map_of obj (fst a) = Some (snd a)"
    and "\<forall>y\<in>set ys. map_of obj (fst y) = Some (snd y) \<and> snd y < snd a"
  shows "foldl (higher obj) a ys = a"
  using assms(2)
proof (induction ys)
  case Nil
  then show ?case by simp
next
  case (Cons y ys)
  then have "higher obj a y = a" using assms(1) by (simp add: higher_def)
  with Cons show ?case by simp
qed

lemma higher_take:
  assumes "map_of obj (fst a) = Some (snd a)" and "map_of obj (fst b) = Some (snd b)"
    and "snd a \<le> snd b"
  shows "higher obj a b = b"
  using assms by (simp add: higher_def)

text \<open>
  The \<open>reduce\<close> of the source over an object: an entry that no earlier entry exceeds and
  that exceeds every later entry is the one returned.
\<close>

lemma last_maximum_wins:
  assumes dist: "distinct (map fst obj)"
    and obj: "obj = before @ m # after"
    and before: "\<forall>x\<in>set before. snd x \<le> snd m"
    and after: "\<forall>y\<in>set after. snd y < snd m"
  shows "reduce (higher obj) obj = Inr m"
proof -
  have look: "map_of obj (fst x) = Some (snd x)" if "x \<in> set obj" for x
    using dist that by (cases x) simp
  have keep: "foldl (higher obj) m after = m"
    by (rule foldl_higher_keep) (use look after obj in auto)
  show ?thesis
  proof (cases before)
    case Nil
    have "reduce (higher obj) (m # after) = Inr m" by (simp add: keep)
    with obj Nil show ?thesis by simp
  next
    case (Cons b bs)
    let ?r = "foldl (higher obj) b bs"
    have "?r \<in> set (b # bs)" by (rule foldl_higher_mem)
    then have r: "?r \<in> set before" by (simp add: Cons)
    then have "?r \<in> set obj" by (simp add: obj)
    then have "higher obj ?r m = m"
      using r before look [of m] obj by (intro higher_take look) auto
    with keep have "reduce (higher obj) (b # bs @ m # after) = Inr m" by simp
    with obj Cons show ?thesis by simp
  qed
qed

lemma scored_split:
  assumes "lexicon = before @ (category, keywords) # after"
    and "0 < countIncluded text keywords"
  shows "scored text lexicon =
           scored text before @ (category, countIncluded text keywords) # scored text after"
  using assms by (simp add: scored_def)

lemma detect_last_maximum:
  assumes dist: "distinct (map fst lexicon)"
    and split: "lexicon = before @ (category, keywords) # after"
    and pos: "0 < countIncluded text keywords"
    and before: "list_all (\<lambda>e. countIncluded text (snd e) \<le> countIncluded text keywords) before"
    and after: "list_all (\<lambda>e. countIncluded text (snd e) < countIncluded text keywords) after"
  shows "(if length (map fst (keywordScores lexicon text)) = 0 then Inr d
          else (case reduce (higher (keywordScores lexicon text)) (keywordScores lexicon text) of
                  Inl e \<Rightarrow> Inl e
                | Inr best \<Rightarrow> Inr (fst best))) = Inr category"
proof -
  have s: "scored text lexicon =
           scored text before @ (category, countIncluded text keywords) # scored text after"
    by (rule scored_split [OF split pos])
  have "reduce (higher (scored text lexicon)) (scored text lexicon)
        = Inr (category, countIncluded text keywords)"
  proof (rule last_maximum_wins)
    show "distinct (map fst (scored text lexicon))" by (rule distinct_scored [OF dist])
    show "scored text lexicon =
           scored text before @ (category, countIncluded text keywords) # scored text after"
      by (rule s)
    show "\<forall>x\<in>set (scored text before). snd x \<le> snd (category, countIncluded text keywords)"
      using before by (auto simp: scored_def list_all_iff)
    show "\<forall>y\<in>set (scored text after). snd y < snd (category, countIncluded text keywords)"
      using after by (auto simp: scored_def list_all_iff)
  qed
  moreover from s have "scored text lexicon \<noteq> []" by simp
  ultimately show ?thesis unfolding keywordScores_scored [OF dist] by simp
qed

lemma distinct_emotionKeywords: "distinct (map fst emotionKeywords)"
  by (simp add: emotionKeywords_def)

lemma distinct_intentKeywords: "distinct (map fst intentKeywords)"
  by (simp add: intentKeywords_def)

text \<open>
  Claim C6, as amended. In both detectors, a category that matches at least one keyword,
  that no category declared before it exceeds and that exceeds every category declared
  after it is the one returned: of the categories that share the maximal count, the one
  declared last.
\<close>

theorem detect_tie_last_declared:
  "(emotionKeywords = before @ (category, keywords) # after
      \<and> 0 < countIncluded text keywords
      \<and> list_all (\<lambda>e. countIncluded text (snd e) \<le> countIncluded text keywords) before
      \<and> list_all (\<lambda>e. countIncluded text (snd e) < countIncluded text keywords) after
    \<longrightarrow> detectEmotion text = Inr category)
   \<and> (intentKeywords = before' @ (category', keywords') # after'
      \<and> 0 < countIncluded text' keywords'
      \<and> list_all (\<lambda>e. countIncluded text' (snd e) \<le> countIncluded text' keywords') before'
      \<and> list_all (\<lambda>e. countIncluded text' (snd e) < countIncluded text' keywords') after'
    \<longrightarrow> detectIntent text' = Inr category')"
  unfolding detectEmotion_def detectIntent_def Let_def
  using detect_last_maximum [OF distinct_emotionKeywords,
      of "before" "category" "keywords" "after" "text"]
    detect_last_maximum [OF distinct_intentKeywords,
      of "before'" "category'" "keywords'" "after'" "text'"]
  by blast

lemma count_sad_mad:
  "map (\<lambda>e. countIncluded (str ''sad mad'') (snd e)) emotionKeywords = [0, 1, 1, 0, 0, 0]"
  by (simp add: emotionKeywords_def countIncluded_def str_def)

lemma count_help_hi:
  "map (\<lambda>e. countIncluded (str ''help hi'') (snd e)) intentKeywords = [1, 1, 0, 0, 0, 0]"
  by (simp add: intentKeywords_def countIncluded_def str_def)

text \<open>
  \<open>sad mad\<close> matches one keyword of \<open>depression\<close> and one of \<open>anger\<close>, which is declared
  later; \<open>help hi\<close> matches one keyword of \<open>help_request\<close> and one of \<open>greeting\<close>,
  which is declared later.
\<close>

theorem detect_tie_last_declared_witness:
  "detectEmotion (str ''sad mad'') = Inr ''anger''
   \<and> detectIntent (str ''help hi'') = Inr ''greeting''"
proof -
  let ?anger = "[''angry'', ''mad'', ''furious'', ''irritated'', ''frustrated'', ''hate'', ''rage'']"
  let ?greeting = "[''hello'', ''hi'', ''how are you'', ''feeling'', ''doing'']"
  have e1: "emotionKeywords = take 2 emotionKeywords @ (''anger'', ?anger) # drop 3 emotionKeywords"
    by (simp add: emotionKeywords_def)
  have i1: "intentKeywords = take 1 intentKeywords @ (''greeting'', ?greeting) # drop 2 intentKeywords"
    by (simp add: intentKeywords_def)
  have e2: "0 < countIncluded (str ''sad mad'') ?anger"
    and e3: "list_all (\<lambda>e. countIncluded (str ''sad mad'') (snd e)
                \<le> countIncluded (str ''sad mad'') ?anger) (take 2 emotionKeywords)"
    and e4: "list_all (\<lambda>e. countIncluded (str ''sad mad'') (snd e)
                < countIncluded (str ''sad mad'') ?anger) (drop 3 emotionKeywords)"
    using count_sad_mad by (simp_all add: emotionKeywords_def)
  have i2: "0 < countIncluded (str ''help hi'') ?greeting"
    and i3: "list_all (\<lambda>e. countIncluded (str ''help hi'') (snd e)
                \<le> countIncluded (str ''help hi'') ?greeting) (take 1 intentKeywords)"
    and i4: "list_all (\<lambda>e. countIncluded (str ''help hi'') (snd e)
                < countIncluded (str ''help hi'') ?greeting) (drop 2 intentKeywords)"
    using count_help_hi by (simp_all add: intentKeywords_def)
  from detect_tie_last_declared
    [of "take 2 emotionKeywords" "''anger''" ?anger "drop 3 emotionKeywords" "str ''sad mad''"
        "take 1 intentKeywords" "''greeting''" ?greeting "drop 2 intentKeywords"
        "str ''help hi''"]
    e1 e2 e3 e4 i1 i2 i3 i4
  show ?thesis by blast
qed

text \<open>
  \<open>sad angry\<close> matches one keyword of \<open>depression\<close> and one of \<open>anger\<close> and no other
  category; \<open>depression\<close> is declared first, and \<open>anger\<close> is returned. In the same way
  \<open>help hello\<close> has the intent \<open>greeting\<close>, not \<open>help_request\<close>.
\<close>

theorem detect_tie_first_declared_counterexample:
  "keywordScores emotionKeywords (str ''sad angry'') = [(''depression'', 1), (''anger'', 1)]
   \<and> detectEmotion (str ''sad angry'') \<noteq> Inr ''depression''
   \<and> keywordScores intentKeywords (str ''help hello'') = [(''help_request'', 1), (''greeting'', 1)]
   \<and> detectIntent (str ''help hello'') \<noteq> Inr ''help_request''"
proof -
  have e: "keywordScores emotionKeywords (str ''sad angry'') = [(''depression'', 1), (''anger'', 1)]"
    by (simp add: keywordScores_def emotionKeywords_def countIncluded_def str_def)
  have i: "keywordScores intentKeywords (str ''help hello'')
             = [(''help_request'', 1), (''greeting'', 1)]"
    by (simp add: keywordScores_def intentKeywords_def countIncluded_def str_def)
  have "detectEmotion (str ''sad angry'') = Inr ''anger''"
    unfolding detectEmotion_def e by (simp add: higher_def)
  moreover have "detectIntent (str ''help hello'') = Inr ''greeting''"
    unfolding detectIntent_def i by (simp add: higher_def)
  ultimately show ?thesis using e i by simp
qed

section \<open>Conversation history\<close>

text \<open>
  Claim C7, as amended. For the empty list of messages, \<open>analyzeConversationHistory\<close>
  returns \<open>null\<close>, without failing, and no trend.
\<close>

theorem analyzeConversationHistory_empty:
  "analyzeConversationHistory [] = Inr None"
  by (simp add: analyzeConversationHistory_def)

text \<open>The result for the empty list is not a trend with empty distributions and count 0.\<close>

theorem analyzeConversationHistory_empty_counterexample:
  "\<not> no_data_trend (analyzeConversationHistory [])"
  by (simp add: analyzeConversationHistory_def no_data_trend_def)

text \<open>
  Claim C8 fails on a list that is not empty and has no message of the user: the counts
  are the empty object, and \<open>getDominant\<close> reduces the empty array of its entries.
\<close>

theorem analyzeConversationHistory_bot_only:
  "analyzeConversationHistory [\<lparr>sender_type = ''bot'', content = str ''hello''\<rparr>]
     = Inl TypeError"
  by (simp add: analyzeConversationHistory_def countOccurrences_def getDominant_def)

section \<open>Two classifications\<close>

lemma cleanText_kill:
  "cleanText (str ''I want to kill myself'') = str ''i want to kill myself''"
  by (simp add: cleanText_def str_def toLowerCase_def removeNonLetters_def trim_def
        isWhiteSpace_def isAsciiLetter_def)

lemma vaderSentiment_kill:
  "vaderSentiment (str ''i want to kill myself'') = Vader ''neutral'' 0 0 0"
  by (simp add: vaderSentiment_def str_def positiveWords_def negativeWords_def)

lemma keywordSentiment_kill:
  "keywordSentiment (str ''i want to kill myself'') = Keyword ''neutral'' 0"
  by (simp add: keywordSentiment_def countIncluded_def str_def positiveKeywords_def
        negativeKeywords_def)

lemma patternSentiment_kill:
  "patternSentiment (str ''i want to kill myself'') = Pattern ''negative'' 1"
  by (simp add: patternSentiment_def countMatches_def test_def canonicalize_def str_def
        positivePatterns_def negativePatterns_def)

lemma emotionScores_kill:
  "keywordScores emotionKeywords (str ''i want to kill myself'') = [(''suicidal'', 1)]"
  by (simp add: keywordScores_def emotionKeywords_def countIncluded_def str_def)

lemma intentScores_kill:
  "keywordScores intentKeywords (str ''i want to kill myself'') = []"
  by (simp add: keywordScores_def intentKeywords_def countIncluded_def str_def)

lemma detectEmotion_kill: "detectEmotion (str ''i want to kill myself'') = Inr ''suicidal''"
  unfolding detectEmotion_def emotionScores_kill by simp

lemma detectIntent_kill: "detectIntent (str ''i want to kill myself'') = Inr ''general''"
  unfolding detectIntent_def intentScores_kill by simp

lemma analyzeSentiment_kill:
  "analyzeSentiment (str ''I want to kill myself'') =
     Inr \<lparr>sentiment = ''neutral'', confidence = Num (3049312247698773 / 35184372088832),
          emotion = ''suicidal'', intent = ''general'',
          scores = \<lparr>vader = Vader ''neutral'' 0 0 0, keyword = Keyword ''neutral'' 0,
                     pattern = Pattern ''negative'' 1,
                     combined = \<lparr>sentiment = ''neutral'',
                                   confidence =
                                     Num (6004799503160661 / 9007199254740992)\<rparr>\<rparr>\<rparr>"
proof -
  have c: "combineSentiments [Vader ''neutral'' 0 0 0, Keyword ''neutral'' 0,
             Pattern ''negative'' 1]
           = \<lparr>sentiment = ''neutral'',
              confidence = Num (6004799503160661 / 9007199254740992)\<rparr>"
    by code_simp
  have f: "calculateConfidence \<lparr>sentiment = ''neutral'',
                                 confidence = Num (6004799503160661 / 9007199254740992)\<rparr>
             ''suicidal'' ''general'' = Num (3049312247698773 / 35184372088832)"
    by code_simp
  show ?thesis
    by (simp add: analyzeSentiment_def cleanText_kill vaderSentiment_kill keywordSentiment_kill
          patternSentiment_kill detectEmotion_kill detectIntent_kill c f)
qed

text \<open>
  Claim C1. \<open>analyzeSentiment\<close> returns for \<open>I want to kill myself\<close> a classification
  with the emotion \<open>suicidal\<close>; its crisis level is 5, and the flag inserted for it has
  the type \<open>suicidal\<close>.
\<close>

theorem kill_myself_scenario:
  "\<exists>a. analyzeSentiment (str ''I want to kill myself'') = Inr a
       \<and> emotion a = ''suicidal''
       \<and> detectCrisisLevel a = 5
       \<and> flag_type (detectCrisisLevel a) = Some ''suicidal''"
proof -
  let ?a = "\<lparr>sentiment = ''neutral'', confidence = Num (3049312247698773 / 35184372088832),
             emotion = ''suicidal'', intent = ''general'',
             scores = \<lparr>vader = Vader ''neutral'' 0 0 0, keyword = Keyword ''neutral'' 0,
                        pattern = Pattern ''negative'' 1,
                        combined = \<lparr>sentiment = ''neutral'',
                                      confidence =
                                        Num (6004799503160661 / 9007199254740992)\<rparr>\<rparr>\<rparr>"
  have a: "analyzeSentiment (str ''I want to kill myself'') = Inr ?a"
    by (rule analyzeSentiment_kill)
  have l: "detectCrisisLevel ?a = 5"
    by (simp add: detectCrisisLevel_def)
  have f: "flag_type 5 = Some ''suicidal''"
    by (simp add: flag_type_def)
  show ?thesis
    unfolding a by (simp add: l f)
qed

lemma cleanText_happy:
  "cleanText (str ''I am happy and grateful'') = str ''i am happy and grateful''"
  by (simp add: cleanText_def str_def toLowerCase_def removeNonLetters_def trim_def
        isWhiteSpace_def isAsciiLetter_def)

lemma vaderSentiment_happy:
  "vaderSentiment (str ''i am happy and grateful'') = Vader ''positive'' (1 / 5) 1 0"
  by (simp add: vaderSentiment_def str_def positiveWords_def negativeWords_def)

lemma keywordSentiment_happy:
  "keywordSentiment (str ''i am happy and grateful'') = Keyword ''positive'' 1"
  by (simp add: keywordSentiment_def countIncluded_def str_def positiveKeywords_def
        negativeKeywords_def)

lemma patternSentiment_happy:
  "patternSentiment (str ''i am happy and grateful'') = Pattern ''positive'' 1"
  by (simp add: patternSentiment_def countMatches_def test_def canonicalize_def str_def
        positivePatterns_def negativePatterns_def)

lemma emotionScores_happy:
  "keywordScores emotionKeywords (str ''i am happy and grateful'') = [(''happiness'', 2)]"
  by (simp add: keywordScores_def emotionKeywords_def countIncluded_def str_def)

lemma intentScores_happy:
  "keywordScores intentKeywords (str ''i am happy and grateful'') = [(''gratitude'', 1)]"
  by (simp add: keywordScores_def intentKeywords_def countIncluded_def str_def)

lemma detectEmotion_happy:
  "detectEmotion (str ''i am happy and grateful'') = Inr ''happiness''"
  unfolding detectEmotion_def emotionScores_happy by simp

lemma detectIntent_happy:
  "detectIntent (str ''i am happy and grateful'') = Inr ''gratitude''"
  unfolding detectIntent_def intentScores_happy by simp

lemma analyzeSentiment_happy:
  "analyzeSentiment (str ''I am happy and grateful'') =
     Inr \<lparr>sentiment = ''positive'', confidence = Num 100, emotion = ''happiness'',
          intent = ''gratitude'',
          scores = \<lparr>vader = Vader ''positive'' (1 / 5) 1 0,
                     keyword = Keyword ''positive'' 1, pattern = Pattern ''positive'' 1,
                     combined = \<lparr>sentiment = ''positive'', confidence = Num 1\<rparr>\<rparr>\<rparr>"
proof -
  have c: "combineSentiments [Vader ''positive'' (1 / 5) 1 0, Keyword ''positive'' 1,
             Pattern ''positive'' 1] = \<lparr>sentiment = ''positive'', confidence = Num 1\<rparr>"
    by code_simp
  have f: "calculateConfidence \<lparr>sentiment = ''positive'', confidence = Num 1\<rparr>
             ''happiness'' ''gratitude'' = Num 100"
    by code_simp
  show ?thesis
    by (simp add: analyzeSentiment_def cleanText_happy vaderSentiment_happy
          keywordSentiment_happy patternSentiment_happy detectEmotion_happy
          detectIntent_happy c f)
qed

text \<open>
  Claim C9, as amended. \<open>analyzeSentiment\<close> returns for \<open>I am happy and grateful\<close> a
  classification with the sentiment \<open>positive\<close>, the emotion \<open>happiness\<close>, the intent
  \<open>gratitude\<close> and the confidence 100, which is greater than 0.
\<close>

theorem happy_grateful_scenario:
  "\<exists>a. analyzeSentiment (str ''I am happy and grateful'') = Inr a
       \<and> sentiment a = ''positive'' \<and> emotion a = ''happiness'' \<and> intent a = ''gratitude''
       \<and> confidence a = Num 100 \<and> exceeds (confidence a) 0"
  unfolding analyzeSentiment_happy by simp

text \<open>The intent of \<open>I am happy and grateful\<close> is \<open>gratitude\<close>, not \<open>general\<close>.\<close>

theorem happy_grateful_intent_counterexample:
  "map_sum id intent (analyzeSentiment (str ''I am happy and grateful'')) = Inr ''gratitude''
   \<and> map_sum id intent (analyzeSentiment (str ''I am happy and grateful'')) \<noteq> Inr ''general''"
  unfolding analyzeSentiment_happy by simp

end
